theory Spec2Isabelle
  imports Complex_Main
begin

section \<open>The reconnecting web socket of reconnecting-websocket.js\<close>

text \<open>
  The source is one constructor, \<^verbatim>\<open>ReconnectingWebSocket(url, protocols)\<close>, whose local
  variables (\<^verbatim>\<open>retries\<close>, \<^verbatim>\<open>ws\<close>, \<^verbatim>\<open>forcedClose\<close>, \<^verbatim>\<open>timedOut\<close>) and public
  fields are shared by the closures it defines. The embedding keeps them in one record and
  turns every closure into a function on that record. Each call of \<^verbatim>\<open>connect\<close> opens a
  closure of its own (\<^verbatim>\<open>reconnectAttempt\<close>, \<^verbatim>\<open>localWs\<close>, \<^verbatim>\<open>timeout\<close>); these are kept
  in a list, one entry per socket ever created, and a socket is named by its index.

  A function of the source can throw after it has changed the state, and the changes stay.
  So every function returns an outcome that carries the state in both cases.

  The debug switch and the \<^verbatim>\<open>dbg\<close> calls only write to the console and are left out.
\<close>

subsection \<open>Values\<close>

text \<open>The values that reach \<^verbatim>\<open>reconnectAttempt\<close> and that \<^verbatim>\<open>send\<close> hands back, with
  JavaScript's truthiness: the empty string and \<^verbatim>\<open>undefined\<close> are falsy.\<close>

datatype jsval = JBool bool | JStr string | JUndefined

fun truthy :: "jsval \<Rightarrow> bool" where
  "truthy (JBool b) = b"
| "truthy (JStr s) = (s \<noteq> [])"
| "truthy JUndefined = False"

text \<open>
  A JavaScript number is an IEEE double: a finite value, an infinity or NaN. The embedding
  stores and compares numbers but does no arithmetic on them: the one computation of the
  source, \<^verbatim>\<open>Math.min(R * T * Math.pow(F, N), M)\<close>, is done by the engine in double
  arithmetic, and its result comes in with the event that runs it.
\<close>

datatype number = Finite real | PosInfinity | NegInfinity | NaN

text \<open>The four states of the socket primitive, \<^verbatim>\<open>WebSocket.CONNECTING\<close> to
  \<^verbatim>\<open>WebSocket.CLOSED\<close>.\<close>

datatype ready_state = CONNECTING | OPEN | CLOSING | CLOSED

text \<open>What can be thrown: the \<^verbatim>\<open>Error\<close> of \<^verbatim>\<open>send\<close>, the \<^verbatim>\<open>InvalidStateError\<close> of the
  primitive's own \<^verbatim>\<open>send\<close>, the \<^verbatim>\<open>TypeError\<close> of reading a property of null or calling
  what is not a function, and whatever a function of the caller throws.\<close>

datatype js_error = INVALID_STATE_ERR | InvalidStateError | TypeError | CallerError string


text \<open>The outcome of running a piece of code: it returned a value, or it threw; the state
  is the one at that moment.\<close>

datatype ('r, 's) outcome = Done 'r 's | Threw js_error 's

fun state_of :: "('r, 's) outcome \<Rightarrow> 's" where
  "state_of (Done r s) = s"
| "state_of (Threw err s) = s"

fun is_Done :: "('r, 's) outcome \<Rightarrow> bool" where
  "is_Done (Done r s) = True"
| "is_Done (Threw err s) = False"

text \<open>An event object of the socket primitive is opaque to the code; only its identity
  matters.\<close>

type_synonym evt = string

text \<open>An invocation of one of the six callback slots, with its arguments.\<close>

datatype call =
    OnOpen evt
  | OnClose evt
  | OnConnecting
  | OnMessage evt
  | OnError evt
  | OnReconnect nat number

text \<open>A function handed to \<^verbatim>\<open>$timeout\<close>. The arguments of \<^verbatim>\<open>onreconnect\<close> are read
  when the function runs, not when it is queued.\<close>

datatype thunk =
    DOnOpen evt
  | DOnClose evt
  | DOnConnecting
  | DOnMessage evt
  | DOnError evt
  | DOnReconnect

subsection \<open>Callback slots\<close>

text \<open>A slot holds whatever the caller assigns. Calling a function value runs it on the
  caller's own state \<open>'u\<close>, and it returns or throws; calling anything else is a
  \<^verbatim>\<open>TypeError\<close>. (A function of the caller that calls back into the instance is not
  covered.)\<close>

datatype 'u slot = NotCallable | Function "call \<Rightarrow> 'u \<Rightarrow> (unit, 'u) outcome"

fun invoke :: "'u slot \<Rightarrow> call \<Rightarrow> 'u \<Rightarrow> (unit, 'u) outcome" where
  "invoke NotCallable c u = Threw TypeError u"
| "invoke (Function f) c u = f c u"

text \<open>\<^verbatim>\<open>function() { }\<close>\<close>

definition noop :: "'u slot" where
  "noop = Function (\<lambda>c u. Done () u)"

text \<open>A slot value that can be called and returns whenever it is.\<close>

fun returns_normally :: "'u slot \<Rightarrow> bool" where
  "returns_normally NotCallable = False"
| "returns_normally (Function f) = (\<forall>c u. is_Done (f c u))"

subsection \<open>State\<close>

text \<open>The closure of one \<^verbatim>\<open>connect\<close> call. \<open>sock_state\<close> is \<^verbatim>\<open>localWs.readyState\<close>, owned
  by the primitive; \<open>timeout_armed\<close> says that the timer behind \<^verbatim>\<open>timeout\<close> is still
  pending, \<open>timeout_delay\<close> is the delay it was armed with, and \<open>attached\<close> says that
  \<^verbatim>\<open>connect\<close> got as far as assigning the four handlers to the socket.\<close>

record conn =
  sock_state :: ready_state
  reconnectAttempt :: jsval
  timeout_armed :: bool
  timeout_delay :: number
  attached :: bool

text \<open>
  The instance. \<open>ws\<close> is \<open>None\<close> for \<^verbatim>\<open>null\<close>. Beside the variables of the source the record
  holds what surrounds it: the caller's state (\<open>world\<close>), the pending retry timers (their
  delays), the queue of \<^verbatim>\<open>$timeout\<close> functions, the slot functions called so far
  (\<open>trace\<close>), the payloads the primitive has transmitted (\<open>sent\<close>), and the exceptions that
  left a handler, a timer function or an operation (\<open>thrown\<close>). \<open>sync_close\<close> describes the
  primitive's \<^verbatim>\<open>close()\<close>: \<open>None\<close> when it only moves the socket to CLOSING and the close
  event arrives later (a browser's WebSocket), \<open>Some e\<close> when it delivers the close event
  \<open>e\<close> before it returns (the reading under which \<^verbatim>\<open>timedOut\<close> can be seen by the close
  handler).

  A reference to a socket is an index into \<open>conns\<close>. The only assignment of a socket to
  \<^verbatim>\<open>ws\<close> is the one in \<^verbatim>\<open>connect\<close>, which stores the index of the socket it has just
  appended, so \<open>conns s ! j\<close> under \<open>ws s = Some j\<close> is always a read inside the list
  (part of \<open>wf\<close> below). \<^verbatim>\<open>retries\<close> is a counter that starts at 0 and is only
  incremented, kept as a natural number.
\<close>

record 'u rws =
  timeoutInterval :: number
  reconnectInterval :: number
  initialReconnectInterval :: number
  maxReconnectInterval :: number
  retries :: nat
  url :: string
  protocols :: "string list"
  URL :: string
  onopen :: "'u slot"
  onclose :: "'u slot"
  onconnecting :: "'u slot"
  onmessage :: "'u slot"
  onerror :: "'u slot"
  onreconnect :: "'u slot"
  readyState :: ready_state
  ws :: "nat option"
  forcedClose :: bool
  timedOut :: bool
  conns :: "conn list"
  retry_timers :: "number list"
  deferred :: "thunk list"
  world :: 'u
  trace :: "call list"
  sent :: "(nat \<times> string) list"
  thrown :: "js_error list"
  sync_close :: "evt option"

subsection \<open>Host and primitive\<close>

text \<open>\<^verbatim>\<open>$timeout(function(){ ... })\<close>: the function joins the queue.\<close>

definition ng_timeout :: "thunk \<Rightarrow> 'u rws \<Rightarrow> 'u rws" where
  "ng_timeout t s = s\<lparr>deferred := deferred s @ [t]\<rparr>"

text \<open>The slot a call goes to.\<close>

fun slot_of :: "'u rws \<Rightarrow> call \<Rightarrow> 'u slot" where
  "slot_of s (OnOpen e) = onopen s"
| "slot_of s (OnClose e) = onclose s"
| "slot_of s OnConnecting = onconnecting s"
| "slot_of s (OnMessage e) = onmessage s"
| "slot_of s (OnError e) = onerror s"
| "slot_of s (OnReconnect n d) = onreconnect s"

definition dispatch :: "'u rws \<Rightarrow> call \<Rightarrow> 'u \<Rightarrow> (unit, 'u) outcome" where
  "dispatch s c u = invoke (slot_of s c) c u"

text \<open>A call of a slot, \<^verbatim>\<open>self.onclose(event)\<close> and the like: the value in the slot is
  called on the caller's state. \<open>trace\<close> records the call when a function was there to be
  called. If it throws, the exception goes on to whoever made the call.\<close>

definition call_slot :: "call \<Rightarrow> 'u rws \<Rightarrow> (unit, 'u rws) outcome" where
  "call_slot c s =
     (case slot_of s c of
        NotCallable \<Rightarrow> Threw TypeError s
      | Function f \<Rightarrow>
          (case f c (world s) of
             Done r w \<Rightarrow> Done () (s\<lparr>world := w, trace := trace s @ [c]\<rparr>)
           | Threw err w \<Rightarrow> Threw err (s\<lparr>world := w, trace := trace s @ [c]\<rparr>)))"

text \<open>The call a queued function makes when the host runs it.\<close>

fun thunk_call :: "'u rws \<Rightarrow> thunk \<Rightarrow> call" where
  "thunk_call s (DOnOpen e) = OnOpen e"
| "thunk_call s (DOnClose e) = OnClose e"
| "thunk_call s DOnConnecting = OnConnecting"
| "thunk_call s (DOnMessage e) = OnMessage e"
| "thunk_call s (DOnError e) = OnError e"
| "thunk_call s DOnReconnect = OnReconnect (retries s + 1) (reconnectInterval s)"

definition upd_conn :: "nat \<Rightarrow> (conn \<Rightarrow> conn) \<Rightarrow> 'u rws \<Rightarrow> 'u rws" where
  "upd_conn i f s = s\<lparr>conns := (conns s)[i := f (conns s ! i)]\<rparr>"

definition set_sock :: "nat \<Rightarrow> ready_state \<Rightarrow> 'u rws \<Rightarrow> 'u rws" where
  "set_sock i st s = upd_conn i (\<lambda>c. c\<lparr>sock_state := st\<rparr>) s"

text \<open>\<^verbatim>\<open>clearTimeout(timeout)\<close> in the closure of socket \<open>i\<close>.\<close>

definition clearTimeout :: "nat \<Rightarrow> 'u rws \<Rightarrow> 'u rws" where
  "clearTimeout i s = upd_conn i (\<lambda>c. c\<lparr>timeout_armed := False\<rparr>) s"

subsection \<open>Backoff\<close>

definition resetReconnectInterval :: "'u rws \<Rightarrow> 'u rws" where
  "resetReconnectInterval s =
     s\<lparr>retries := 0, reconnectInterval := initialReconnectInterval s\<rparr>"

text \<open>\<open>v\<close> is the double the engine computes for
  \<^verbatim>\<open>Math.min(R * T * Math.pow(F, N), M)\<close>; the function stores it and counts the retry.\<close>

definition updateReconnectInterval :: "number \<Rightarrow> 'u rws \<Rightarrow> 'u rws" where
  "updateReconnectInterval v s =
     (let N = retries s
      in s\<lparr>reconnectInterval := v, retries := N + 1\<rparr>)"

subsection \<open>Connecting and the socket handlers\<close>

text \<open>\<^verbatim>\<open>connect(reconnectAttempt)\<close>: a new socket in state CONNECTING becomes \<^verbatim>\<open>ws\<close> and
  \<^verbatim>\<open>onconnecting\<close> is called at once. Only if that call returns is the connect timer
  armed and are the four handlers assigned.\<close>

definition connect :: "jsval \<Rightarrow> 'u rws \<Rightarrow> (unit, 'u rws) outcome" where
  "connect ra s =
     (let i = length (conns s);
          s1 = s\<lparr>conns := conns s @
                  [\<lparr>sock_state = CONNECTING, reconnectAttempt = ra, timeout_armed = False,
                    timeout_delay = Finite 0, attached = False\<rparr>],
                 ws := Some i\<rparr>;
          s2 = s1\<lparr>readyState := sock_state (conns s1 ! i)\<rparr>
      in case call_slot OnConnecting s2 of
           Threw err s3 \<Rightarrow> Threw err s3
         | Done r s3 \<Rightarrow>
             Done () (upd_conn i
               (\<lambda>c. c\<lparr>timeout_armed := True, timeout_delay := timeoutInterval s3,
                       attached := True\<rparr>) s3))"

text \<open>\<^verbatim>\<open>ws.onopen\<close> of socket \<open>i\<close>. The first statement reads \<^verbatim>\<open>ws.readyState\<close> through the
  shared variable \<^verbatim>\<open>ws\<close>, which throws when \<^verbatim>\<open>ws\<close> is null.\<close>

definition ws_onopen :: "nat \<Rightarrow> evt \<Rightarrow> 'u rws \<Rightarrow> (unit, 'u rws) outcome" where
  "ws_onopen i e s =
     (case ws s of
        None \<Rightarrow> Threw TypeError s
      | Some j \<Rightarrow>
          (let s1 = s\<lparr>readyState := sock_state (conns s ! j)\<rparr>;
               s2 = clearTimeout i s1;
               s3 = resetReconnectInterval s2;
               s4 = upd_conn i (\<lambda>c. c\<lparr>reconnectAttempt := JBool False\<rparr>) s3
           in Done () (ng_timeout (DOnOpen e) s4)))"

text \<open>\<^verbatim>\<open>ws.onclose\<close> of socket \<open>i\<close>. The forced branch calls \<^verbatim>\<open>self.onclose(event)\<close>
  itself.\<close>

definition ws_onclose :: "nat \<Rightarrow> evt \<Rightarrow> 'u rws \<Rightarrow> (unit, 'u rws) outcome" where
  "ws_onclose i e s =
     (case ws s of
        None \<Rightarrow> Threw TypeError s
      | Some j \<Rightarrow>
          (let s1 = s\<lparr>readyState := sock_state (conns s ! j)\<rparr>;
               s2 = clearTimeout i s1;
               s3 = s2\<lparr>ws := None\<rparr>
           in if forcedClose s3 then call_slot (OnClose e) s3
              else
                (let s4 = s3\<lparr>readyState := CONNECTING\<rparr>;
                     s5 = ng_timeout DOnConnecting s4;
                     s6 = (if \<not> (truthy (reconnectAttempt (conns s5 ! i)) \<or> timedOut s5)
                           then ng_timeout (DOnClose e) s5 else s5);
                     s7 = ng_timeout DOnReconnect s6
                 in Done () (s7\<lparr>retry_timers := retry_timers s7 @ [reconnectInterval s7]\<rparr>))))"

definition ws_onmessage :: "nat \<Rightarrow> evt \<Rightarrow> 'u rws \<Rightarrow> 'u rws" where
  "ws_onmessage i e s = ng_timeout (DOnMessage e) s"

definition ws_onerror :: "nat \<Rightarrow> evt \<Rightarrow> 'u rws \<Rightarrow> 'u rws" where
  "ws_onerror i e s = ng_timeout (DOnError e) s"

text \<open>The primitive delivers the open or the close event of socket \<open>i\<close>: it sets the
  socket's state and calls the handler, if \<^verbatim>\<open>connect\<close> assigned one.\<close>

definition deliver_open :: "nat \<Rightarrow> evt \<Rightarrow> 'u rws \<Rightarrow> (unit, 'u rws) outcome" where
  "deliver_open i e s =
     (if attached (conns s ! i) then ws_onopen i e (set_sock i OPEN s)
      else Done () (set_sock i OPEN s))"

definition deliver_close :: "nat \<Rightarrow> evt \<Rightarrow> 'u rws \<Rightarrow> (unit, 'u rws) outcome" where
  "deliver_close i e s =
     (if attached (conns s ! i) then ws_onclose i e (set_sock i CLOSED s)
      else Done () (set_sock i CLOSED s))"

text \<open>The primitive's \<^verbatim>\<open>close()\<close> on socket \<open>i\<close>: nothing on a socket that is closing or
  closed; otherwise the socket starts closing, and under \<open>sync_close = Some e\<close> its close
  event is delivered before \<^verbatim>\<open>close()\<close> returns.\<close>

definition prim_close :: "nat \<Rightarrow> 'u rws \<Rightarrow> (unit, 'u rws) outcome" where
  "prim_close i s =
     (if sock_state (conns s ! i) = CLOSED \<or> sock_state (conns s ! i) = CLOSING then Done () s
      else case sync_close s of
             None \<Rightarrow> Done () (set_sock i CLOSING s)
           | Some e \<Rightarrow> deliver_close i e s)"

text \<open>The primitive's \<^verbatim>\<open>send(data)\<close> on socket \<open>i\<close>, as the WebSocket interface has it: it
  throws \<^verbatim>\<open>InvalidStateError\<close> while the socket is connecting, transmits while it is
  open, and drops the data without a word once it is closing or closed; it returns
  \<^verbatim>\<open>undefined\<close>.\<close>

definition prim_send :: "nat \<Rightarrow> string \<Rightarrow> 'u rws \<Rightarrow> (jsval, 'u rws) outcome" where
  "prim_send i d s =
     (case sock_state (conns s ! i) of
        CONNECTING \<Rightarrow> Threw InvalidStateError s
      | OPEN \<Rightarrow> Done JUndefined (s\<lparr>sent := sent s @ [(i, d)]\<rparr>)
      | CLOSING \<Rightarrow> Done JUndefined s
      | CLOSED \<Rightarrow> Done JUndefined s)"

text \<open>The function \<^verbatim>\<open>connect\<close> hands to \<^verbatim>\<open>setTimeout\<close> for socket \<open>i\<close>.\<close>

definition timeout_cb :: "nat \<Rightarrow> 'u rws \<Rightarrow> (unit, 'u rws) outcome" where
  "timeout_cb i s =
     (case prim_close i (s\<lparr>timedOut := True\<rparr>) of
        Threw err s' \<Rightarrow> Threw err s'
      | Done r s' \<Rightarrow> Done () (s'\<lparr>timedOut := False\<rparr>))"

text \<open>The function the close handler hands to \<^verbatim>\<open>setTimeout\<close>: \<^verbatim>\<open>connect(true)\<close>, then
  \<^verbatim>\<open>updateReconnectInterval()\<close>.\<close>

definition retry_cb :: "number \<Rightarrow> 'u rws \<Rightarrow> (unit, 'u rws) outcome" where
  "retry_cb v s =
     (case connect (JBool True) s of
        Threw err s' \<Rightarrow> Threw err s'
      | Done r s' \<Rightarrow> Done () (updateReconnectInterval v s'))"

subsection \<open>The constructor and the public operations\<close>

text \<open>\<^verbatim>\<open>protocols\<close> may be omitted (\<open>None\<close>); \<open>sc\<close> fixes the primitive's \<^verbatim>\<open>close()\<close> and
  \<open>w\<close> is the caller's state at the time. \<^verbatim>\<open>readyState\<close> has no value before \<^verbatim>\<open>connect\<close>
  assigns it; the record starts it at CONNECTING, which that assignment overwrites with the
  same value. The last statement of the constructor but the method definitions is
  \<^verbatim>\<open>connect(url)\<close>.\<close>

definition ReconnectingWebSocket ::
  "evt option \<Rightarrow> 'u \<Rightarrow> string \<Rightarrow> string list option \<Rightarrow> 'u rws" where
  "ReconnectingWebSocket sc w u ps =
     state_of (connect (JStr u)
       \<lparr>timeoutInterval = Finite 2000,
        reconnectInterval = Finite 5000,
        initialReconnectInterval = Finite 5000,
        maxReconnectInterval = Finite (5 * 60 * 1000),
        retries = 0,
        url = u,
        protocols = (case ps of None \<Rightarrow> [] | Some p \<Rightarrow> p),
        URL = u,
        onopen = noop,
        onclose = noop,
        onconnecting = noop,
        onmessage = noop,
        onerror = noop,
        onreconnect = noop,
        readyState = CONNECTING,
        ws = None,
        forcedClose = False,
        timedOut = False,
        conns = [],
        retry_timers = [],
        deferred = [],
        world = w,
        trace = [],
        sent = [],
        thrown = [],
        sync_close = sc\<rparr>)"

text \<open>\<^verbatim>\<open>this.send\<close>, \<^verbatim>\<open>this.close\<close>, \<^verbatim>\<open>this.refresh\<close>.\<close>

definition send :: "string \<Rightarrow> 'u rws \<Rightarrow> (jsval, 'u rws) outcome" where
  "send d s =
     (case ws s of
        Some i \<Rightarrow> prim_send i d s
      | None \<Rightarrow> Threw INVALID_STATE_ERR s)"

definition close :: "'u rws \<Rightarrow> (unit, 'u rws) outcome" where
  "close s =
     (case ws s of
        Some i \<Rightarrow> prim_close i (s\<lparr>forcedClose := True\<rparr>)
      | None \<Rightarrow> Done () s)"

definition refresh :: "'u rws \<Rightarrow> (unit, 'u rws) outcome" where
  "refresh s =
     (case ws s of
        Some i \<Rightarrow> prim_close i s
      | None \<Rightarrow> Done () s)"

subsection \<open>The host's events\<close>

text \<open>
  Everything that makes the code run: the I/O layer delivering an event of socket \<open>i\<close>, a
  timer firing, the host running the oldest queued \<^verbatim>\<open>$timeout\<close> function, and the caller
  calling an operation or assigning a public field. \<open>RetryFire\<close> carries the number the
  engine computes in \<^verbatim>\<open>updateReconnectInterval\<close>.
\<close>

datatype slot_name = Sonopen | Sonclose | Sonconnecting | Sonmessage | Sonerror | Sonreconnect

datatype 'u event =
    SockOpen nat evt
  | SockClose nat evt
  | SockMessage nat evt
  | SockError nat evt
  | TimeoutFire nat
  | RetryFire number
  | RunDeferred
  | CallSend string
  | CallClose
  | CallRefresh
  | SetTimeoutInterval number
  | SetReconnectInterval number
  | SetInitialReconnectInterval number
  | SetMaxReconnectInterval number
  | SetSlot slot_name "'u slot"

fun set_slot :: "slot_name \<Rightarrow> 'u slot \<Rightarrow> 'u rws \<Rightarrow> 'u rws" where
  "set_slot Sonopen f s = s\<lparr>onopen := f\<rparr>"
| "set_slot Sonclose f s = s\<lparr>onclose := f\<rparr>"
| "set_slot Sonconnecting f s = s\<lparr>onconnecting := f\<rparr>"
| "set_slot Sonmessage f s = s\<lparr>onmessage := f\<rparr>"
| "set_slot Sonerror f s = s\<lparr>onerror := f\<rparr>"
| "set_slot Sonreconnect f s = s\<lparr>onreconnect := f\<rparr>"

text \<open>The host runs the oldest queued function, which calls its slot.\<close>

definition run_deferred :: "'u rws \<Rightarrow> (unit, 'u rws) outcome" where
  "run_deferred s =
     (case deferred s of
        [] \<Rightarrow> Done () s
      | t # ts \<Rightarrow> call_slot (thunk_call s t) (s\<lparr>deferred := ts\<rparr>))"

text \<open>Dropping the value an operation returns.\<close>

fun unit_outcome :: "('r, 's) outcome \<Rightarrow> (unit, 's) outcome" where
  "unit_outcome (Done r s) = Done () s"
| "unit_outcome (Threw err s) = Threw err s"

text \<open>
  One event. A timer that fires is no longer pending. A message or an error event reaches
  a handler only on a socket that has one.
\<close>

fun step :: "'u event \<Rightarrow> 'u rws \<Rightarrow> (unit, 'u rws) outcome" where
  "step (SockOpen i e) s = deliver_open i e s"
| "step (SockClose i e) s = deliver_close i e s"
| "step (SockMessage i e) s =
     Done () (if attached (conns s ! i) then ws_onmessage i e s else s)"
| "step (SockError i e) s =
     Done () (if attached (conns s ! i) then ws_onerror i e s else s)"
| "step (TimeoutFire i) s = timeout_cb i (clearTimeout i s)"
| "step (RetryFire v) s = retry_cb v (s\<lparr>retry_timers := tl (retry_timers s)\<rparr>)"
| "step RunDeferred s = run_deferred s"
| "step (CallSend d) s = unit_outcome (send d s)"
| "step CallClose s = close s"
| "step CallRefresh s = refresh s"
| "step (SetTimeoutInterval v) s = Done () (s\<lparr>timeoutInterval := v\<rparr>)"
| "step (SetReconnectInterval v) s = Done () (s\<lparr>reconnectInterval := v\<rparr>)"
| "step (SetInitialReconnectInterval v) s = Done () (s\<lparr>initialReconnectInterval := v\<rparr>)"
| "step (SetMaxReconnectInterval v) s = Done () (s\<lparr>maxReconnectInterval := v\<rparr>)"
| "step (SetSlot n f) s = Done () (set_slot n f s)"

text \<open>The state after an event. An exception that leaves a handler or a timer function is
  caught by the host, one that leaves an operation goes to the caller; either way the
  instance stays as it was when the exception was thrown, and \<open>thrown\<close> records it.\<close>

definition after :: "'u event \<Rightarrow> 'u rws \<Rightarrow> 'u rws" where
  "after e s =
     (case step e s of
        Done r s' \<Rightarrow> s'
      | Threw err s' \<Rightarrow> s'\<lparr>thrown := thrown s' @ [err]\<rparr>)"

text \<open>
  What the host can do in a state. A socket opens only while it is connecting, delivers
  messages only while open, and delivers nothing after its close event. A connect timer
  fires only while armed. A retry timer fires only when one is pending, and, its delay being
  at least that of the \<^verbatim>\<open>$timeout\<close> functions queued before it was set, only after those
  have run.
\<close>

fun enabled :: "'u event \<Rightarrow> 'u rws \<Rightarrow> bool" where
  "enabled (SockOpen i e) s = (i < length (conns s) \<and> sock_state (conns s ! i) = CONNECTING)"
| "enabled (SockClose i e) s = (i < length (conns s) \<and> sock_state (conns s ! i) \<noteq> CLOSED)"
| "enabled (SockMessage i e) s = (i < length (conns s) \<and> sock_state (conns s ! i) = OPEN)"
| "enabled (SockError i e) s = (i < length (conns s) \<and> sock_state (conns s ! i) \<noteq> CLOSED)"
| "enabled (TimeoutFire i) s = (i < length (conns s) \<and> timeout_armed (conns s ! i))"
| "enabled (RetryFire v) s = (retry_timers s \<noteq> [] \<and> deferred s = [])"
| "enabled RunDeferred s = (deferred s \<noteq> [])"
| "enabled (CallSend d) s = True"
| "enabled CallClose s = True"
| "enabled CallRefresh s = True"
| "enabled (SetTimeoutInterval v) s = True"
| "enabled (SetReconnectInterval v) s = True"
| "enabled (SetInitialReconnectInterval v) s = True"
| "enabled (SetMaxReconnectInterval v) s = True"
| "enabled (SetSlot n f) s = True"

text \<open>A sequence of events, and whether each is one the host can deliver when its turn
  comes.\<close>

fun run :: "'u event list \<Rightarrow> 'u rws \<Rightarrow> 'u rws" where
  "run [] s = s"
| "run (e # es) s = run es (after e s)"

fun legal :: "'u event list \<Rightarrow> 'u rws \<Rightarrow> bool" where
  "legal [] s = True"
| "legal (e # es) s = (enabled e s \<and> legal es (after e s))"

subsection \<open>Notions used in the statements\<close>

fun is_DOnClose :: "thunk \<Rightarrow> bool" where
  "is_DOnClose (DOnClose e) = True"
| "is_DOnClose t = False"

fun is_OnClose :: "call \<Rightarrow> bool" where
  "is_OnClose (OnClose e) = True"
| "is_OnClose c = False"



fun is_SetSlot :: "'u event \<Rightarrow> bool" where
  "is_SetSlot (SetSlot n f) = True"
| "is_SetSlot ev = False"


text \<open>The six slots, in the order of the constructor, and that each holds a function that
  returns normally.\<close>

definition slots :: "'u rws \<Rightarrow> 'u slot list" where
  "slots s = [onopen s, onclose s, onconnecting s, onmessage s, onerror s, onreconnect s]"

definition slots_ok :: "'u rws \<Rightarrow> bool" where
  "slots_ok s = list_all returns_normally (slots s)"






text \<open>Instances used as concrete inputs: one just constructed, its first handshake in
  flight, on a primitive whose \<^verbatim>\<open>close()\<close> returns before the close event; the same on a
  primitive that delivers the close event \<open>''closed''\<close> inside \<^verbatim>\<open>close()\<close>; and one
  constructed with the empty string as URL.\<close>

definition connecting_instance :: "unit rws" where
  "connecting_instance = ReconnectingWebSocket None () ''ws://host'' None"


definition empty_url_instance :: "unit rws" where
  "empty_url_instance = ReconnectingWebSocket None () '''' None"

text \<open>The first instance paused after its first attempt failed, and open after its first
  attempt succeeded (on either primitive).\<close>

definition paused_instance :: "unit rws" where
  "paused_instance = run [SockClose 0 ''lost'', RunDeferred, RunDeferred] connecting_instance"

definition open_instance :: "unit rws" where
  "open_instance = run [SockOpen 0 ''up''] connecting_instance"




text \<open>A timeout of the first attempt on a browser's primitive: the connect timer fires,
  the close event comes later, the host runs the three queued functions.\<close>

definition timed_out_attempt :: "unit event list" where
  "timed_out_attempt =
     [TimeoutFire 0, SockClose 0 ''timed out'', RunDeferred, RunDeferred, RunDeferred]"

section \<open>Properties\<close>

lemmas rws_defs = connect_def Let_def upd_conn_def ng_timeout_def deliver_open_def
  deliver_close_def ws_onopen_def ws_onclose_def ws_onmessage_def ws_onerror_def prim_close_def
  prim_send_def timeout_cb_def retry_cb_def send_def close_def refresh_def run_deferred_def
  set_sock_def clearTimeout_def resetReconnectInterval_def updateReconnectInterval_def after_def

subsection \<open>Calling a slot\<close>



lemma slots_ok_upd [simp]:
  "slots_ok (s\<lparr>conns := cs\<rparr>) = slots_ok s" "slots_ok (s\<lparr>ws := x\<rparr>) = slots_ok s"
  "slots_ok (s\<lparr>readyState := r\<rparr>) = slots_ok s" "slots_ok (s\<lparr>deferred := d\<rparr>) = slots_ok s"
  "slots_ok (s\<lparr>world := w\<rparr>) = slots_ok s" "slots_ok (s\<lparr>trace := t\<rparr>) = slots_ok s"
  "slots_ok (s\<lparr>retry_timers := rt\<rparr>) = slots_ok s" "slots_ok (s\<lparr>forcedClose := b\<rparr>) = slots_ok s"
  "slots_ok (s\<lparr>timedOut := b\<rparr>) = slots_ok s" "slots_ok (s\<lparr>sent := se\<rparr>) = slots_ok s"
  "slots_ok (s\<lparr>thrown := th\<rparr>) = slots_ok s" "slots_ok (s\<lparr>retries := n\<rparr>) = slots_ok s"
  "slots_ok (s\<lparr>reconnectInterval := v\<rparr>) = slots_ok s"
  "slots_ok (s\<lparr>initialReconnectInterval := v\<rparr>) = slots_ok s"
  "slots_ok (s\<lparr>maxReconnectInterval := v\<rparr>) = slots_ok s"
  "slots_ok (s\<lparr>timeoutInterval := v\<rparr>) = slots_ok s"
  by (simp_all add: slots_ok_def slots_def)


subsection \<open>The invariant\<close>

lemmas instance_defs = ReconnectingWebSocket_def call_slot_def noop_def



subsection \<open>Runs\<close>



lemma is_OnClose_thunk_call [simp]: "is_OnClose (thunk_call s t) = is_DOnClose t"
  by (cases t) simp_all


subsection \<open>After a forced close\<close>






subsection \<open>Slots over a run\<close>

lemma step_slots:
  assumes "\<not> is_SetSlot e"
  shows "slots (after e s) = slots s"
  using assms
  by (cases e)
    (auto simp: slots_def rws_defs call_slot_def
      split: option.splits outcome.splits if_splits list.splits slot.splits ready_state.splits)

lemma run_slots: "\<not> list_ex is_SetSlot es \<Longrightarrow> slots (run es s) = slots s"
  by (induction es arbitrary: s) (auto simp: step_slots)

lemma dispatch_noop:
  "slots s = [noop, noop, noop, noop, noop, noop] \<Longrightarrow> dispatch s c w = Done () w"
  by (cases c) (simp_all add: slots_def dispatch_def noop_def)

subsection \<open>Running the queue\<close>




subsection \<open>Facts about the concrete instances\<close>

lemma paused_instance_fields:
  "ws paused_instance = None" "retry_timers paused_instance = [Finite 5000]"
  "deferred paused_instance = []" "retries paused_instance = 0"
  "forcedClose paused_instance = False" "length (conns paused_instance) = 1"
  by (simp_all add: paused_instance_def connecting_instance_def instance_defs rws_defs)

section \<open>The claims\<close>

text \<open>
  C1. What the code does at the failing input: an instance constructed with the empty
  string as URL, so that the first socket's \<^verbatim>\<open>reconnectAttempt\<close> is falsy, on a primitive
  that delivers close events after \<^verbatim>\<open>close()\<close> has returned, as a browser's WebSocket
  does. The connect timer fires; its function sets \<^verbatim>\<open>timedOut\<close>, calls
  \<^verbatim>\<open>localWs.close()\<close> and clears \<^verbatim>\<open>timedOut\<close> again; the close event arrives afterwards
  and the host runs the queue. The close handler finds \<^verbatim>\<open>timedOut\<close> false, so the
  timeout-triggered close is reported: \<^verbatim>\<open>onclose\<close> is called, between \<^verbatim>\<open>onconnecting\<close>
  and \<^verbatim>\<open>onreconnect\<close>.
\<close>

theorem timeout_close_is_reported:
  "legal timed_out_attempt empty_url_instance \<and>
   \<not> timedOut (run [TimeoutFire 0] empty_url_instance) \<and>
   sock_state (conns (run [TimeoutFire 0] empty_url_instance) ! 0) = CLOSING \<and>
   trace (run timed_out_attempt empty_url_instance) =
     [OnConnecting, OnConnecting, OnClose ''timed out'', OnReconnect 1 (Finite 5000)] \<and>
   thrown (run timed_out_attempt empty_url_instance) = []"
  by (simp add: timed_out_attempt_def empty_url_instance_def instance_defs rws_defs)









text \<open>
  C7. What the code does at the failing input: the constructor calls \<^verbatim>\<open>connect(url)\<close>, so
  the first socket's \<^verbatim>\<open>reconnectAttempt\<close> is the URL, which is truthy unless empty. When the
  first attempt to \<open>''ws://host''\<close> closes without having opened, \<^verbatim>\<open>onconnecting\<close> and
  \<^verbatim>\<open>onreconnect\<close> are queued and \<^verbatim>\<open>onclose\<close> is not.
\<close>

theorem first_attempt_close_is_suppressed:
  "\<exists>s'. step (SockClose 0 e) (ReconnectingWebSocket sc w ''ws://host'' ps) = Done () s' \<and>
     deferred s' = [DOnConnecting, DOnReconnect] \<and> trace s' = [OnConnecting]"
  by (simp add: instance_defs rws_defs)

text \<open>
  C8. While \<^verbatim>\<open>ws\<close> is null \<^verbatim>\<open>close()\<close> returns the state as it was, \<^verbatim>\<open>forcedClose\<close> and the
  pending retry timer included; when that timer fires afterwards a new socket is created
  and becomes \<^verbatim>\<open>ws\<close>.
\<close>

theorem close_without_connection_is_noop:
  assumes "ws s = None"
  shows "close s = Done () s \<and> step CallClose s = Done () s \<and>
     (\<exists>s'. s' = run [CallClose, RetryFire v] s \<and> ws s' = Some (length (conns s))
        \<and> length (conns s') = length (conns s) + 1 \<and> forcedClose s' = forcedClose s)"
  using assms
  by (simp add: rws_defs call_slot_def split: slot.splits outcome.splits)

theorem close_without_connection_is_noop_witness:
  "ws paused_instance = None \<and> retry_timers paused_instance \<noteq> [] \<and>
   step CallClose paused_instance = Done () paused_instance \<and>
   legal [CallClose, RetryFire (Finite 7500)] paused_instance \<and>
   ws (run [CallClose, RetryFire (Finite 7500)] paused_instance) = Some 1 \<and>
   \<not> forcedClose (run [CallClose, RetryFire (Finite 7500)] paused_instance)"
  using close_without_connection_is_noop [of paused_instance "Finite 7500"]
  by (auto simp: paused_instance_fields rws_defs)

text \<open>
  C9. What the code does at the failing input: a socket opens, delivers a message, the
  caller calls \<^verbatim>\<open>close()\<close> and the close event arrives, all before the host runs a queued
  function. \<^verbatim>\<open>onconnecting\<close> (from \<^verbatim>\<open>connect\<close>) and \<^verbatim>\<open>onclose\<close> (from the forced branch of
  the close handler) have been called directly, while \<^verbatim>\<open>onopen\<close> and \<^verbatim>\<open>onmessage\<close> are
  still queued: the caller sees \<^verbatim>\<open>onclose\<close> before them.
\<close>

theorem forced_onclose_and_connecting_are_direct:
  "trace (run [SockOpen 0 ''up'', SockMessage 0 ''msg'', CallClose, SockClose 0 ''down'']
      connecting_instance) = [OnConnecting, OnClose ''down''] \<and>
   deferred (run [SockOpen 0 ''up'', SockMessage 0 ''msg'', CallClose, SockClose 0 ''down'']
      connecting_instance) = [DOnOpen ''up'', DOnMessage ''msg''] \<and>
   thrown (run [SockOpen 0 ''up'', SockMessage 0 ''msg'', CallClose, SockClose 0 ''down'']
      connecting_instance) = []"
  by (simp add: connecting_instance_def instance_defs rws_defs)

text \<open>
  C10. The constructor puts a function that does nothing into each of the six slots. Until
  the caller assigns a slot they stay so, whatever happens: calling any slot with any
  arguments returns normally and leaves the caller's state as it was.
\<close>

theorem slots_start_as_noops:
  assumes "s = run es (ReconnectingWebSocket sc w u ps)" "\<not> list_ex is_SetSlot es"
  shows "onopen s = noop \<and> onclose s = noop \<and> onconnecting s = noop \<and> onmessage s = noop \<and>
         onerror s = noop \<and> onreconnect s = noop \<and> dispatch s c x = Done () x"
proof -
  have "slots (ReconnectingWebSocket sc w u ps) = [noop, noop, noop, noop, noop, noop]"
    by (simp add: slots_def instance_defs rws_defs)
  with run_slots[OF assms(2)] assms(1) have *: "slots s = [noop, noop, noop, noop, noop, noop]"
    by simp
  from dispatch_noop[OF this] * show ?thesis by (simp add: slots_def)
qed

theorem slots_start_as_noops_witness:
  "onopen connecting_instance = noop \<and> onclose connecting_instance = noop \<and>
   onconnecting connecting_instance = noop \<and> onmessage connecting_instance = noop \<and>
   onerror connecting_instance = noop \<and> onreconnect connecting_instance = noop \<and>
   dispatch connecting_instance (OnOpen ''up'') () = Done () () \<and>
   dispatch open_instance (OnReconnect 1 (Finite 5000)) () = Done () ()"
  using
    slots_start_as_noops [of connecting_instance "[]" None "()" "''ws://host''" None
      "OnOpen ''up''" "()"]
    slots_start_as_noops [of open_instance "[SockOpen 0 ''up'']" None "()" "''ws://host''" None
      "OnReconnect 1 (Finite 5000)" "()"]
  by (simp add: open_instance_def connecting_instance_def)

end
